theory Spec2Isabelle
  imports Complex_Main
begin

section \<open>Data model\<close>

text \<open>
  The program is \<^verbatim>\<open>roll.ts\<close>: a lexer, a recursive-descent parser, a static roll
  counter, an evaluator and the facade \<^verbatim>\<open>roll\<close>.

  Strings are \<^typ>\<open>string\<close>: one \<^typ>\<open>char\<close> stands for one UTF-16 code unit of the
  JavaScript string, so indices and lengths count what \<^verbatim>\<open>expression[offset]\<close> and
  \<^verbatim>\<open>expression.length\<close> count; the model covers the code units 0..255.

  Offsets and token positions are natural numbers: they index a string or an array.
  Every other number of the program is a JavaScript number, the type \<open>number\<close> below.
\<close>

section \<open>Numbers\<close>

text \<open>
  A JavaScript number is an IEEE 754 double: \<open>NaN\<close>, \<open>Infinity negative\<close> (\<open>-Infinity\<close> when
  the flag is set), \<open>MinusZero\<close> (the number \<open>-0\<close>) or \<open>Finite x\<close>, the finite double with the
  real value \<open>x\<close>; \<open>Finite 0\<close> is the number \<open>+0\<close>.
\<close>

datatype number = NaN | Infinity bool | MinusZero | Finite real

text \<open>
  Rounding to the nearest double, ties to even. \<open>bits n\<close> is the number of binary
  digits of \<open>n\<close>. For a real \<open>m > 0\<close>, \<open>exponent m\<close> is the exponent of the binade of \<open>m\<close>, at
  least \<open>-1022\<close> (below \<open>2^-1022\<close> the doubles are subnormal); the doubles around \<open>m\<close> are
  the multiples of \<open>2^(exponent m - 52)\<close>. \<open>roundMagnitude m\<close> is the nearest of them, or
  \<open>None\<close> when that is \<open>2^1024\<close>, which is no double: the rounding overflows.
\<close>

fun bits :: "nat \<Rightarrow> nat" where
  "bits n = (if n = 0 then 0 else Suc (bits (n div 2)))"

declare bits.simps [simp del]

definition exponent :: "real \<Rightarrow> int" where
  "exponent m =
     (if 1 \<le> m then int (bits (nat \<lfloor>m\<rfloor>)) - 1
      else max (- int (bits (nat (\<lceil>1 / m\<rceil> - 1)))) (- 1022))"

definition roundHalfEven :: "real \<Rightarrow> int" where
  "roundHalfEven x =
     (let f = \<lfloor>x\<rfloor> in
      if x - of_int f < 1 / 2 then f
      else if 1 / 2 < x - of_int f then f + 1
      else if even f then f else f + 1)"

definition roundMagnitude :: "real \<Rightarrow> real option" where
  "roundMagnitude m =
     (let e = exponent m;
          r = (if e \<le> 52 then of_int (roundHalfEven (m * 2 ^ nat (52 - e))) / 2 ^ nat (52 - e)
               else of_int (roundHalfEven (m / 2 ^ nat (e - 52))) * 2 ^ nat (e - 52))
      in if 2 ^ 1024 \<le> r then None else Some r)"

text \<open>
  \<open>rounded negative m\<close> is the number that an exact result with the sign \<open>negative\<close> and the
  absolute value \<open>m\<close> is rounded to: a result too large is an infinity, a result too small
  a zero, both with the sign of the exact result. \<open>toNumber x\<close> rounds the real \<open>x\<close>.
\<close>

definition zero :: "bool \<Rightarrow> number" where
  "zero negative = (if negative then MinusZero else Finite 0)"

definition rounded :: "bool \<Rightarrow> real \<Rightarrow> number" where
  "rounded negative m =
     (if m = 0 then zero negative
      else case roundMagnitude m of
             None \<Rightarrow> Infinity negative
           | Some r \<Rightarrow> if r = 0 then zero negative else Finite (if negative then - r else r))"

definition toNumber :: "real \<Rightarrow> number" where
  "toNumber x = rounded (x < 0) \<bar>x\<bar>"

text \<open>
  The sign of a number that is not \<open>NaN\<close>, whether it is a zero, and the real value of a
  finite number.
\<close>

fun isNegative :: "number \<Rightarrow> bool" where
  "isNegative NaN = False"
| "isNegative (Infinity negative) = negative"
| "isNegative MinusZero = True"
| "isNegative (Finite x) = (x < 0)"

fun isZero :: "number \<Rightarrow> bool" where
  "isZero MinusZero = True"
| "isZero (Finite x) = (x = 0)"
| "isZero _ = False"

fun realValue :: "number \<Rightarrow> real" where
  "realValue (Finite x) = x"
| "realValue _ = 0"

text \<open>
  The operators \<^verbatim>\<open>+\<close>, unary and binary \<^verbatim>\<open>-\<close>, \<^verbatim>\<open>*\<close> and \<^verbatim>\<open>/\<close> on numbers
  (ECMAScript \<open>Number::add\<close>, \<open>unaryMinus\<close>, \<open>subtract\<close>, \<open>multiply\<close>, \<open>divide\<close>): the exact
  result, rounded. None of them throws: a division by zero is an infinity or \<open>NaN\<close>.
\<close>

fun numberAdd :: "number \<Rightarrow> number \<Rightarrow> number" where
  "numberAdd NaN y = NaN"
| "numberAdd x NaN = NaN"
| "numberAdd (Infinity s) (Infinity t) = (if s = t then Infinity s else NaN)"
| "numberAdd (Infinity s) y = Infinity s"
| "numberAdd x (Infinity t) = Infinity t"
| "numberAdd MinusZero y = y"
| "numberAdd x MinusZero = x"
| "numberAdd (Finite x) (Finite y) = toNumber (x + y)"

fun numberUnaryMinus :: "number \<Rightarrow> number" where
  "numberUnaryMinus NaN = NaN"
| "numberUnaryMinus (Infinity s) = Infinity (\<not> s)"
| "numberUnaryMinus MinusZero = Finite 0"
| "numberUnaryMinus (Finite x) = (if x = 0 then MinusZero else Finite (- x))"

definition numberSubtract :: "number \<Rightarrow> number \<Rightarrow> number" where
  "numberSubtract x y = numberAdd x (numberUnaryMinus y)"

fun numberMultiply :: "number \<Rightarrow> number \<Rightarrow> number" where
  "numberMultiply NaN y = NaN"
| "numberMultiply x NaN = NaN"
| "numberMultiply (Infinity s) y = (if isZero y then NaN else Infinity (s \<noteq> isNegative y))"
| "numberMultiply x (Infinity t) = (if isZero x then NaN else Infinity (isNegative x \<noteq> t))"
| "numberMultiply x y =
     rounded (isNegative x \<noteq> isNegative y) \<bar>realValue x * realValue y\<bar>"

fun numberDivide :: "number \<Rightarrow> number \<Rightarrow> number" where
  "numberDivide NaN y = NaN"
| "numberDivide x NaN = NaN"
| "numberDivide (Infinity s) (Infinity t) = NaN"
| "numberDivide (Infinity s) y = Infinity (s \<noteq> isNegative y)"
| "numberDivide x (Infinity t) = zero (isNegative x \<noteq> t)"
| "numberDivide x y =
     (if isZero y then (if isZero x then NaN else Infinity (isNegative x \<noteq> isNegative y))
      else rounded (isNegative x \<noteq> isNegative y) \<bar>realValue x / realValue y\<bar>)"

text \<open>\<^verbatim>\<open>x < y\<close> on numbers (false when one is \<open>NaN\<close>); \<^verbatim>\<open>x > y\<close> is \<open>lessThan y x\<close>.\<close>

fun lessThan :: "number \<Rightarrow> number \<Rightarrow> bool" where
  "lessThan NaN y = False"
| "lessThan x NaN = False"
| "lessThan (Infinity s) (Infinity t) = (s \<and> \<not> t)"
| "lessThan (Infinity s) y = s"
| "lessThan x (Infinity t) = (\<not> t)"
| "lessThan x y = (realValue x < realValue y)"

text \<open>The truthiness of a number: \<open>+0\<close>, \<open>-0\<close> and \<open>NaN\<close> are falsy.\<close>

fun toBoolean :: "number \<Rightarrow> bool" where
  "toBoolean NaN = False"
| "toBoolean (Infinity s) = True"
| "toBoolean MinusZero = False"
| "toBoolean (Finite x) = (x \<noteq> 0)"

text \<open>
  \<open>ToIntegerOrInfinity\<close>: \<open>NaN\<close> and the zeros give 0, an infinity stays, a finite number is
  truncated towards zero. \<open>ToLength\<close> clamps the result to \<open>0 .. 2^53 - 1\<close>.
\<close>

datatype integerOrInfinity = NegativeInfinity | Integer int | PositiveInfinity

fun toIntegerOrInfinity :: "number \<Rightarrow> integerOrInfinity" where
  "toIntegerOrInfinity NaN = Integer 0"
| "toIntegerOrInfinity (Infinity s) = (if s then NegativeInfinity else PositiveInfinity)"
| "toIntegerOrInfinity MinusZero = Integer 0"
| "toIntegerOrInfinity (Finite x) = Integer (if x < 0 then - \<lfloor>- x\<rfloor> else \<lfloor>x\<rfloor>)"

definition toLength :: "number \<Rightarrow> nat" where
  "toLength x =
     (case toIntegerOrInfinity x of
        NegativeInfinity \<Rightarrow> 0
      | Integer i \<Rightarrow> nat (min i (2 ^ 53 - 1))
      | PositiveInfinity \<Rightarrow> 2 ^ 53 - 1)"

section \<open>Tokens and errors\<close>

datatype token_type =
    PLUS | MINUS | STAR | SLASH
  | KEEP_HIGHEST | KEEP_LOWEST
  | NUMBER | DICE | PAREN_OPEN | PAREN_CLOSE | EOF

text \<open>\<^verbatim>\<open>BaseToken\<close> and \<^verbatim>\<open>NumberToken\<close>: \<open>literal\<close> is present on \<open>NUMBER\<close> tokens only.\<close>

record token =
  type :: token_type
  lexeme :: string
  offset :: nat
  literal :: "number option"

text \<open>
  Everything the program throws. \<open>DiceNotationError message expression offset\<close> has the
  three constructor arguments of the class, \<open>TooManyDiceError dice\<close> the one of its class.
  \<open>Expected t n\<close> and \<open>Unexpected t n\<close> are the parser's
  \<^verbatim>\<open>Error(`Expected ${type} at offset ${n}`)\<close> and
  \<^verbatim>\<open>Error(`Unexpected ${type} at offset ${n}`)\<close>; \<open>UnexpectedNode\<close> is the evaluator's
  \<^verbatim>\<open>Error(`Unexpected node ${node}`)\<close>. \<open>TypeError\<close> is reading \<^verbatim>\<open>.type\<close> of
  \<^verbatim>\<open>undefined\<close> (a token index out of range); \<open>RangeError\<close> is \<^verbatim>\<open>Array.from\<close> asked
  for a length of \<open>2^32\<close> or more.

  \<open>IllTyped\<close> is not thrown by the program: it stands for the use of a \<open>NUMBER\<close> token
  without \<open>literal\<close>, which the type \<^verbatim>\<open>Token\<close> excludes and \<^verbatim>\<open>lex\<close> never builds.
\<close>

datatype error =
    DiceNotationError string string nat
  | Expected token_type nat
  | Unexpected token_type nat
  | UnexpectedNode
  | TypeError
  | RangeError
  | TooManyDiceError number
  | IllTyped

section \<open>Lexer\<close>

definition isDigit :: "char \<Rightarrow> bool" where
  "isDigit char \<longleftrightarrow>
     (of_char (CHR ''0'') :: nat) \<le> of_char char \<and> (of_char char :: nat) \<le> of_char (CHR ''9'')"

text \<open>
  \<^verbatim>\<open>char.match(/\s/)\<close>: the white space and line terminator code units below 256
  (tab, line feed, vertical tab, form feed, carriage return, space, no-break space).
\<close>

definition isSpace :: "char \<Rightarrow> bool" where
  "isSpace char \<longleftrightarrow>
     char \<in> set [CHR 0x09, CHR 0x0A, CHR 0x0B, CHR 0x0C, CHR 0x0D, CHR 0x20, CHR 0xA0]"

text \<open>\<^verbatim>\<open>expression.slice(start, end)\<close> for \<open>0 \<le> start \<le> end \<le> length\<close>.\<close>

definition substring :: "string \<Rightarrow> nat \<Rightarrow> nat \<Rightarrow> string" where
  "substring expression start end = take (end - start) (drop start expression)"

text \<open>
  \<^verbatim>\<open>parseInt\<close> on a run of decimal digits: \<open>mathInt\<close> is the integer the digits
  denote, and the result is the number nearest to it, so a literal above \<open>2^53\<close> may be
  read as a neighbour and a literal of 309 digits or more can be read as \<open>Infinity\<close>.
  (For a run of more than 20 significant digits ECMAScript lets an implementation read
  the digits after the 20th as zeros; the model reads them as they are.)
\<close>

definition digitValue :: "char \<Rightarrow> nat" where
  "digitValue char = of_char char - of_char (CHR ''0'')"

definition mathInt :: "string \<Rightarrow> nat" where
  "mathInt number = foldl (\<lambda>n char. 10 * n + digitValue char) 0 number"

definition parseInt :: "string \<Rightarrow> number" where
  "parseInt number = toNumber (real (mathInt number))"

text \<open>
  The inner loop \<^verbatim>\<open>while (isDigit(expression[offset])) offset++\<close>; past the end
  \<^verbatim>\<open>expression[offset]\<close> is \<^verbatim>\<open>undefined\<close>, which is no digit.
\<close>

function scanDigits :: "string \<Rightarrow> nat \<Rightarrow> nat" where
  "scanDigits expression off =
     (if off < length expression \<and> isDigit (expression ! off)
      then scanDigits expression (off + 1) else off)"
  by pat_completeness auto
termination
  by (relation "measure (\<lambda>(expression, off). length expression - off)") auto

declare scanDigits.simps [simp del]

lemma scanDigits_ge: "off \<le> scanDigits expression off"
proof (induction expression off rule: scanDigits.induct)
  case (1 expression off)
  then show ?case
    by (subst scanDigits.simps) (auto simp: le_Suc_eq dest: Suc_leD)
qed

lemma scanDigits_le: "off \<le> length expression \<Longrightarrow> scanDigits expression off \<le> length expression"
proof (induction expression off rule: scanDigits.induct)
  case (1 expression off)
  then show ?case
    by (subst scanDigits.simps) auto
qed

lemma scanDigits_gt:
  "off < length expression \<Longrightarrow> isDigit (expression ! off) \<Longrightarrow> off < scanDigits expression off"
  using scanDigits_ge [of "off + 1" expression]
  by (subst scanDigits.simps) simp

lemma scanDigits_measure:
  "off < length expression \<Longrightarrow> isDigit (expression ! off) \<Longrightarrow>
     length expression - scanDigits expression off < length expression - off"
  using scanDigits_gt [of off expression] by simp

definition mkToken :: "token_type \<Rightarrow> string \<Rightarrow> nat \<Rightarrow> token" where
  "mkToken t l off = \<lparr>type = t, lexeme = l, offset = off, literal = None\<rparr>"

text \<open>
  The scanning loop of \<^verbatim>\<open>lex\<close>: the state is \<open>offset\<close>, \<open>tokens\<close> and \<open>errors\<close>; it
  returns the three when the loop ends.
\<close>

function lexLoop :: "string \<Rightarrow> nat \<Rightarrow> token list \<Rightarrow> error list \<Rightarrow> token list \<times> error list \<times> nat" where
  "lexLoop expression off tokens errors =
     (if off < length expression then
        (let char = expression ! off in
         if isSpace char then lexLoop expression (off + 1) tokens errors
         else if isDigit char then
           (let start = off;
                off' = scanDigits expression off;
                number = substring expression start off'
            in lexLoop expression off'
                 (tokens @ [\<lparr>type = NUMBER, lexeme = number, offset = start,
                             literal = Some (parseInt number)\<rparr>]) errors)
         else if char = CHR ''d'' then
           (let start = off; off' = off + 1
            in lexLoop expression off'
                 (tokens @ [mkToken DICE (substring expression start off') start]) errors)
         else if char = CHR ''+'' then
           lexLoop expression (off + 1) (tokens @ [mkToken PLUS ''+'' off]) errors
         else if char = CHR ''-'' then
           lexLoop expression (off + 1) (tokens @ [mkToken MINUS ''-'' off]) errors
         else if char = CHR ''*'' then
           lexLoop expression (off + 1) (tokens @ [mkToken STAR ''*'' off]) errors
         else if char = CHR ''/'' then
           lexLoop expression (off + 1) (tokens @ [mkToken SLASH ''/'' off]) errors
         else if char = CHR ''('' then
           lexLoop expression (off + 1) (tokens @ [mkToken PAREN_OPEN ''('' off]) errors
         else if char = CHR '')'' then
           lexLoop expression (off + 1) (tokens @ [mkToken PAREN_CLOSE '')'' off]) errors
         else if char = CHR ''k'' then
           (let off' = off + 1 in
            if off' < length expression \<and> expression ! off' = CHR ''h'' then
              lexLoop expression (off' + 1) (tokens @ [mkToken KEEP_HIGHEST ''kh'' off']) errors
            else if off' < length expression \<and> expression ! off' = CHR ''l'' then
              lexLoop expression (off' + 1) (tokens @ [mkToken KEEP_LOWEST ''kh'' off']) errors
            else
              lexLoop expression off' tokens
                (errors @ [DiceNotationError (''Unexpected '' @ [char]) expression off']))
         else if char = CHR ''h'' then
           lexLoop expression (off + 1) (tokens @ [mkToken KEEP_HIGHEST [char] off]) errors
         else if char = CHR ''l'' then
           lexLoop expression (off + 1) (tokens @ [mkToken KEEP_LOWEST [char] off]) errors
         else
           lexLoop expression (off + 1) tokens
             (errors @ [DiceNotationError (''Unexpected '' @ [CHR 0x27, char, CHR 0x27] @ ''!'')
                          expression off]))
      else (tokens, errors, off))"
  by pat_completeness auto
termination
  by (relation "measure (\<lambda>(expression, off, tokens, errors). length expression - off)")
    (auto simp: scanDigits_measure)

declare lexLoop.simps [simp del]

definition lex :: "string \<Rightarrow> error + token list" where
  "lex expression =
     (case lexLoop expression 0 [] [] of
        (tokens, errors, off) \<Rightarrow>
          if length errors > 0 then Inl (errors ! 0)
          else Inr (tokens @ [mkToken EOF '''' off]))"
section \<open>Parser\<close>

text \<open>
  The numbers of the tree (\<open>value\<close>, \<open>numDice\<close>, \<open>numSides\<close>) are literals of \<open>NUMBER\<close>
  tokens or the constant 1. \<open>DiceModifierNode numDice numSides operator right\<close> holds the
  two fields of its \<open>left: DiceNode\<close>. The operator of a node is the token type the parser
  read, as at run time.
\<close>

datatype ASTNode =
    NumberNode number
  | DiceNode number number
  | BinaryOpNode ASTNode token_type ASTNode
  | DiceModifierNode number number token_type ASTNode
  | GroupingNode ASTNode

definition bind :: "error + 'a \<Rightarrow> ('a \<Rightarrow> error + 'b) \<Rightarrow> error + 'b" where
  "bind m f = (case m of Inl e \<Rightarrow> Inl e | Inr x \<Rightarrow> f x)"

lemma bind_cong [fundef_cong]:
  "m = m' \<Longrightarrow> (\<And>x. m' = Inr x \<Longrightarrow> f x = f' x) \<Longrightarrow> bind m f = bind m' f'"
  by (auto simp: bind_def split: sum.splits)

lemma bind_Inl [simp]: "bind (Inl e) f = Inl e"
  by (simp add: bind_def)

lemma bind_Inr [simp]: "bind (Inr x) f = f x"
  by (simp add: bind_def)

lemma bind_eq_Inr: "bind m f = Inr y \<longleftrightarrow> (\<exists>x. m = Inr x \<and> f x = Inr y)"
  by (cases m) auto

lemma bind_InrE: "bind m f = Inr y \<Longrightarrow> (\<And>x. m = Inr x \<Longrightarrow> f x = Inr y \<Longrightarrow> P) \<Longrightarrow> P"
  by (auto simp: bind_eq_Inr)

definition peek :: "token list \<Rightarrow> nat \<Rightarrow> error + token" where
  "peek tokens current = (if current < length tokens then Inr (tokens ! current) else Inl TypeError)"

definition previous :: "token list \<Rightarrow> nat \<Rightarrow> token" where
  "previous tokens current = tokens ! (current - 1)"

definition match :: "token_type list \<Rightarrow> token list \<Rightarrow> nat \<Rightarrow> error + bool \<times> nat" where
  "match types tokens current =
     bind (peek tokens current) (\<lambda>token.
       if type token \<in> set types then Inr (True, current + 1) else Inr (False, current))"

definition expect :: "token_type \<Rightarrow> token list \<Rightarrow> nat \<Rightarrow> error + token \<times> nat" where
  "expect t tokens current =
     bind (peek tokens current) (\<lambda>token.
       if type token = t then Inr (token, current + 1) else Inl (Expected t (offset token)))"

definition numberLiteral :: "token \<Rightarrow> error + number" where
  "numberLiteral token = (case literal token of None \<Rightarrow> Inl IllTyped | Some n \<Rightarrow> Inr n)"

function (domintros) term' :: "token list \<Rightarrow> nat \<Rightarrow> error + ASTNode \<times> nat"
  and termLoop :: "token list \<Rightarrow> ASTNode \<Rightarrow> nat \<Rightarrow> error + ASTNode \<times> nat"
  and factor :: "token list \<Rightarrow> nat \<Rightarrow> error + ASTNode \<times> nat"
  and factorLoop :: "token list \<Rightarrow> ASTNode \<Rightarrow> nat \<Rightarrow> error + ASTNode \<times> nat"
  and primary :: "token list \<Rightarrow> nat \<Rightarrow> error + ASTNode \<times> nat"
  and dice :: "token list \<Rightarrow> nat \<Rightarrow> error + ASTNode \<times> nat"
where
  "term' tokens current =
     bind (factor tokens current) (\<lambda>(expr, current).
       termLoop tokens expr current)"
| "termLoop tokens expr current =
     bind (match [MINUS, PLUS] tokens current) (\<lambda>(matched, current).
       if matched then
         bind (factor tokens current) (\<lambda>(right, current').
           termLoop tokens (BinaryOpNode expr (type (previous tokens current)) right) current')
       else Inr (expr, current))"
| "factor tokens current =
     bind (primary tokens current) (\<lambda>(expr, current).
       factorLoop tokens expr current)"
| "factorLoop tokens expr current =
     bind (match [STAR, SLASH] tokens current) (\<lambda>(matched, current).
       if matched then
         bind (primary tokens current) (\<lambda>(right, current').
           factorLoop tokens (BinaryOpNode expr (type (previous tokens current)) right) current')
       else Inr (expr, current))"
| "primary tokens current =
     bind (peek tokens current) (\<lambda>token.
       if type token = DICE \<or>
          (type token = NUMBER \<and> current + 1 < length tokens \<and> type (tokens ! (current + 1)) = DICE)
       then dice tokens current
       else
         bind (match [NUMBER] tokens current) (\<lambda>(isNumber, current).
           if isNumber then
             bind (numberLiteral (previous tokens current)) (\<lambda>num. Inr (NumberNode num, current))
           else
             bind (match [DICE] tokens current) (\<lambda>(isDice, current).
               if isDice then
                 bind (expect NUMBER tokens current) (\<lambda>(sides, current).
                   bind (numberLiteral sides) (\<lambda>numSides. Inr (DiceNode (Finite 1) numSides, current)))
               else
                 bind (match [PAREN_OPEN] tokens current) (\<lambda>(isParen, current).
                   if isParen then
                     bind (term' tokens current) (\<lambda>(expr, current).
                       bind (expect PAREN_CLOSE tokens current) (\<lambda>(close, current).
                         Inr (GroupingNode expr, current)))
                   else
                     bind (peek tokens current) (\<lambda>token.
                       Inl (Unexpected (type token) (offset token)))))))"
| "dice tokens current =
     bind (match [NUMBER] tokens current) (\<lambda>(hasCount, current).
       bind (if hasCount then numberLiteral (previous tokens current) else Inr (Finite 1)) (\<lambda>numDice.
         bind (expect DICE tokens current) (\<lambda>(d, current).
           bind (expect NUMBER tokens current) (\<lambda>(sides, current).
             bind (numberLiteral sides) (\<lambda>numSides.
               bind (match [KEEP_HIGHEST, KEEP_LOWEST] tokens current) (\<lambda>(hasModifier, current).
                 if hasModifier then
                   bind (primary tokens current) (\<lambda>(right, current').
                     Inr (DiceModifierNode numDice numSides (type (previous tokens current)) right,
                          current'))
                 else Inr (DiceNode numDice numSides, current)))))))"
  by pat_completeness auto

lemma peek_Inr: "peek tokens current = Inr token \<Longrightarrow> current < length tokens \<and> token = tokens ! current"
  by (auto simp: peek_def split: if_splits)

lemma match_Inr:
  "match types tokens current = Inr (matched, current1) \<Longrightarrow>
     current < length tokens \<and> (matched \<longrightarrow> current1 = current + 1 \<and> type (tokens ! current) \<in> set types) \<and>
     (\<not> matched \<longrightarrow> current1 = current \<and> type (tokens ! current) \<notin> set types)"
  by (auto simp: match_def peek_def split: if_splits)

lemma expect_Inr:
  "expect t tokens current = Inr (token, current1) \<Longrightarrow>
     current < length tokens \<and> current1 = current + 1 \<and> token = tokens ! current \<and> type token = t"
  by (auto simp: expect_def peek_def split: if_splits)

lemma peek_eq_Inr: "peek tokens current = Inr token \<longleftrightarrow> current < length tokens \<and> token = tokens ! current"
  by (auto simp: peek_def)

lemma match_eq_Inr:
  "match types tokens current = Inr (matched, current1) \<longleftrightarrow>
     current < length tokens \<and> matched = (type (tokens ! current) \<in> set types) \<and>
     current1 = (if matched then current + 1 else current)"
  by (auto simp: match_def peek_def)

lemma expect_eq_Inr:
  "expect t tokens current = Inr (token, current1) \<longleftrightarrow>
     current < length tokens \<and> current1 = current + 1 \<and> token = tokens ! current \<and> type token = t"
  by (auto simp: expect_def peek_def)

lemma parser_advances_dom:
  "term'_termLoop_factor_factorLoop_primary_dice_dom (Inl (Inl (tokens, c1))) \<Longrightarrow>
     term' tokens c1 = Inr (e1, d1) \<Longrightarrow> c1 < d1 \<and> d1 < length tokens"
  "term'_termLoop_factor_factorLoop_primary_dice_dom (Inl (Inr (Inl (tokens, x2, c2)))) \<Longrightarrow>
     termLoop tokens x2 c2 = Inr (e2, d2) \<Longrightarrow> c2 \<le> d2 \<and> d2 < length tokens"
  "term'_termLoop_factor_factorLoop_primary_dice_dom (Inl (Inr (Inr (tokens, c3)))) \<Longrightarrow>
     factor tokens c3 = Inr (e3, d3) \<Longrightarrow> c3 < d3 \<and> d3 < length tokens"
  "term'_termLoop_factor_factorLoop_primary_dice_dom (Inr (Inl (tokens, x4, c4))) \<Longrightarrow>
     factorLoop tokens x4 c4 = Inr (e4, d4) \<Longrightarrow> c4 \<le> d4 \<and> d4 < length tokens"
  "term'_termLoop_factor_factorLoop_primary_dice_dom (Inr (Inr (Inl (tokens, c5)))) \<Longrightarrow>
     primary tokens c5 = Inr (e5, d5) \<Longrightarrow> c5 < d5 \<and> d5 \<le> length tokens"
  "term'_termLoop_factor_factorLoop_primary_dice_dom (Inr (Inr (Inr (tokens, c6)))) \<Longrightarrow>
     dice tokens c6 = Inr (e6, d6) \<Longrightarrow> c6 < d6 \<and> d6 \<le> length tokens"
proof (induction tokens c1 and tokens x2 c2 and tokens c3 and tokens x4 c4 and tokens c5 and tokens c6
    arbitrary: e1 d1 and e2 d2 and e3 d3 and e4 d4 and e5 d5 and e6 d6
    rule: term'_termLoop_factor_factorLoop_primary_dice.pinduct)
  case (1 tokens current)
  from "1.prems" "1.hyps" obtain expr c where f: "factor tokens current = Inr (expr, c)"
    and l: "termLoop tokens expr c = Inr (e1, d1)"
    by (auto simp: term'.psimps elim!: bind_InrE)
  from "1.IH"(1)[OF f] "1.IH"(2)[OF f refl l] show ?case by simp
next
  case (2 tokens expr current)
  from "2.prems" "2.hyps" obtain matched c where m: "match [MINUS, PLUS] tokens current = Inr (matched, c)"
    and r: "(if matched then
         bind (factor tokens c) (\<lambda>(right, current').
           termLoop tokens (BinaryOpNode expr (type (previous tokens c)) right) current')
       else Inr (expr, c)) = Inr (e2, d2)"
    by (auto simp: termLoop.psimps elim!: bind_InrE)
  show ?case
  proof (cases matched)
    case True
    with r obtain right c' where f: "factor tokens c = Inr (right, c')"
      and l: "termLoop tokens (BinaryOpNode expr (type (previous tokens c)) right) c' = Inr (e2, d2)"
      by (auto elim!: bind_InrE)
    from "2.IH"(1)[OF m refl True f] "2.IH"(2)[OF m refl True f refl l] match_Inr[OF m] True
    show ?thesis by simp
  next
    case False
    with r match_Inr[OF m] show ?thesis by simp
  qed
next
  case (3 tokens current)
  from "3.prems" "3.hyps" obtain expr c where f: "primary tokens current = Inr (expr, c)"
    and l: "factorLoop tokens expr c = Inr (e3, d3)"
    by (auto simp: factor.psimps elim!: bind_InrE)
  from "3.IH"(1)[OF f] "3.IH"(2)[OF f refl l] show ?case by simp
next
  case (4 tokens expr current)
  from "4.prems" "4.hyps" obtain matched c where m: "match [STAR, SLASH] tokens current = Inr (matched, c)"
    and r: "(if matched then
         bind (primary tokens c) (\<lambda>(right, current').
           factorLoop tokens (BinaryOpNode expr (type (previous tokens c)) right) current')
       else Inr (expr, c)) = Inr (e4, d4)"
    by (auto simp: factorLoop.psimps elim!: bind_InrE)
  show ?case
  proof (cases matched)
    case True
    with r obtain right c' where f: "primary tokens c = Inr (right, c')"
      and l: "factorLoop tokens (BinaryOpNode expr (type (previous tokens c)) right) c' = Inr (e4, d4)"
      by (auto elim!: bind_InrE)
    from "4.IH"(1)[OF m refl True f] "4.IH"(2)[OF m refl True f refl l] match_Inr[OF m] True
    show ?thesis by simp
  next
    case False
    with r match_Inr[OF m] show ?thesis by simp
  qed
next
  case (5 tokens current)
  have ih1: "dice tokens current = Inr (e, d) \<Longrightarrow> current < length tokens \<Longrightarrow>
      type (tokens ! current) = DICE \<or>
      (type (tokens ! current) = NUMBER \<and> current + 1 < length tokens \<and>
       type (tokens ! (current + 1)) = DICE) \<Longrightarrow> current < d \<and> d \<le> length tokens" for e d
    using "5.IH"(1)[of "tokens ! current" e d] by (simp add: peek_eq_Inr)
  have ih2: "term' tokens (Suc current) = Inr (e, d) \<Longrightarrow> current < length tokens \<Longrightarrow>
      type (tokens ! current) = PAREN_OPEN \<Longrightarrow> Suc current < d \<and> d < length tokens" for e d
    using "5.IH"(2)[of "tokens ! current" "(False, current)" False current "(False, current)" False
        current "(True, Suc current)" True "Suc current" e d]
    by (simp add: peek_eq_Inr match_eq_Inr)
  from "5.prems" "5.hyps" show ?case
    apply (simp add: primary.psimps)
    apply (erule bind_InrE)
    apply (simp split: if_splits)
    apply (auto elim!: bind_InrE split: if_splits simp: match_eq_Inr expect_eq_Inr peek_eq_Inr dest: ih1)
      apply (drule ih2, assumption, assumption, simp)+
    done
next
  case (6 tokens current)
  have ih: "primary tokens c = Inr (e, d) \<Longrightarrow>
     match [NUMBER] tokens current = Inr (hasCount, c1) \<Longrightarrow>
     \<exists>nd. (if hasCount then numberLiteral (previous tokens c1) else Inr (Finite 1)) = Inr nd \<Longrightarrow>
     expect DICE tokens c1 = Inr (dt, c2) \<Longrightarrow>
     expect NUMBER tokens c2 = Inr (sides, c3) \<Longrightarrow>
     numberLiteral sides = Inr ns \<Longrightarrow>
     match [KEEP_HIGHEST, KEEP_LOWEST] tokens c3 = Inr (True, c) \<Longrightarrow>
     c < d \<and> d \<le> length tokens" for c e d hasCount c1 dt c2 sides c3 ns
    using "6.IH"[OF _ refl _ _ refl _ refl _ _ refl] by blast
  from "6.prems" "6.hyps" show ?case
    apply (simp add: dice.psimps)
    apply (auto elim!: bind_InrE split: if_splits)
           apply ((frule ih, assumption, fastforce, assumption+)?, (drule match_Inr expect_Inr)+, simp)+
    done
qed

lemma parser_total: "All term'_termLoop_factor_factorLoop_primary_dice_dom"
proof (relation "measures
    [case_sum
       (case_sum (\<lambda>(tokens, current). length tokens - current)
          (case_sum (\<lambda>(tokens, expr, current). length tokens - current)
             (\<lambda>(tokens, current). length tokens - current)))
       (case_sum (\<lambda>(tokens, expr, current). length tokens - current)
          (case_sum (\<lambda>(tokens, current). length tokens - current)
             (\<lambda>(tokens, current). length tokens - current))),
     case_sum
       (case_sum (\<lambda>_. 3) (case_sum (\<lambda>_. 0) (\<lambda>_. 2)))
       (case_sum (\<lambda>_. 0) (case_sum (\<lambda>_. 1) (\<lambda>_. 0)))]", goal_cases)
  case 1
  show ?case by simp
next
  case (2 tokens current)
  show ?case by simp
next
  case (3 tokens current x xa y)
  with parser_advances_dom(3)[of tokens current xa y] show ?case by auto
next
  case (4 tokens expr current x xa y)
  then show ?case by (auto simp: match_eq_Inr)
next
  case (5 tokens expr current x xa y xb xc ya)
  with parser_advances_dom(3)[of tokens y xc ya] show ?case by (auto simp: match_eq_Inr)
next
  case (6 tokens current)
  show ?case by simp
next
  case (7 tokens current x xa y)
  with parser_advances_dom(5)[of tokens current xa y] show ?case by auto
next
  case (8 tokens expr current x xa y)
  then show ?case by (auto simp: match_eq_Inr)
next
  case (9 tokens expr current x xa y xb xc ya)
  with parser_advances_dom(5)[of tokens y xc ya] show ?case by (auto simp: match_eq_Inr)
next
  case (10 tokens current x)
  show ?case by simp
next
  case (11 tokens current x xa xb y xc xd ya xe xf yb)
  then show ?case by (auto simp: match_eq_Inr peek_eq_Inr)
next
  case (12 tokens current x xa y xb xc xd ya xe xf yb xg xh xi yc)
  then show ?case by (auto simp: match_eq_Inr expect_eq_Inr split: if_splits)
qed

termination term'
  by (rule parser_total)

lemmas parser_dom = spec [OF parser_total]

lemmas parser_advances =
  parser_advances_dom(1) [OF parser_dom] parser_advances_dom(2) [OF parser_dom]
  parser_advances_dom(3) [OF parser_dom] parser_advances_dom(4) [OF parser_dom]
  parser_advances_dom(5) [OF parser_dom] parser_advances_dom(6) [OF parser_dom]

declare term'.simps [simp del] termLoop.simps [simp del] factor.simps [simp del]
  factorLoop.simps [simp del] primary.simps [simp del] dice.simps [simp del]

text \<open>
  \<^verbatim>\<open>parse\<close>: the top-level \<^verbatim>\<open>term\<close>, then a look at the next token. What
  \<^verbatim>\<open>console.warn\<close> prints is returned beside the tree.
\<close>

definition parse :: "token list \<Rightarrow> error + ASTNode \<times> string list" where
  "parse tokens =
     bind (term' tokens 0) (\<lambda>(ast, current).
       bind (peek tokens current) (\<lambda>token.
         Inr (ast, if type token \<noteq> EOF then [''Could not parse whole expression''] else [])))"

section \<open>Roll counter\<close>

text \<open>\<^verbatim>\<open>countRolls\<close> returns a number and adds with \<^verbatim>\<open>+\<close>.\<close>

fun countRolls :: "ASTNode \<Rightarrow> number" where
  "countRolls (NumberNode v) = Finite 1"
| "countRolls (DiceNode numDice numSides) = numDice"
| "countRolls (BinaryOpNode left operator right) = numberAdd (countRolls left) (countRolls right)"
| "countRolls (DiceModifierNode numDice numSides operator right) =
     numberAdd (countRolls (DiceNode numDice numSides)) (countRolls right)"
| "countRolls (GroupingNode expression) = countRolls expression"

section \<open>Evaluator\<close>

text \<open>
  \<^verbatim>\<open>Result\<close>. The field \<^verbatim>\<open>children\<close> is declared in the source and never assigned,
  so it is left out.
\<close>

record Result =
  result :: number
  rolls :: "number list option"
  explanation :: string

text \<open>
  \<^verbatim>\<open>Random = (max: number) => number\<close> is a function with an effect (the test's
  generator, or \<^verbatim>\<open>Math.random\<close>): it takes the state of the source and returns the
  new one.
\<close>

type_synonym 's Random = "number \<Rightarrow> 's \<Rightarrow> number \<times> 's"

text \<open>
  The test helper \<^verbatim>\<open>sequence(numbers)\<close>: the state is what the generator has not
  yielded yet. Once the numbers are used up the generator yields \<^verbatim>\<open>undefined\<close>, which
  is no number; the model leaves that value unspecified.
\<close>

fun sequence :: "number list Random" where
  "sequence m (number # numbers) = (number, numbers)"
| "sequence m [] = (undefined, [])"

text \<open>\<^verbatim>\<open>arr.reduce((a, b) => a + b, 0)\<close>\<close>

definition sumArr :: "number list \<Rightarrow> number" where
  "sumArr arr = foldl numberAdd (Finite 0) arr"

text \<open>\<^verbatim>\<open>Array.prototype.join\<close> on strings.\<close>

fun join :: "string \<Rightarrow> string list \<Rightarrow> string" where
  "join sep [] = []"
| "join sep [x] = x"
| "join sep (x # y # ys) = x @ sep @ join sep (y # ys)"

text \<open>
  \<^verbatim>\<open>Array.prototype.slice(start, end)\<close>: both arguments go through
  \<open>ToIntegerOrInfinity\<close>, a negative one counts from the end, and each is clamped to
  \<open>0..length\<close>. \<open>None\<close> is an absent \<^verbatim>\<open>end\<close>.
\<close>

definition relativeIndex :: "nat \<Rightarrow> integerOrInfinity \<Rightarrow> nat" where
  "relativeIndex len rel =
     (case rel of
        NegativeInfinity \<Rightarrow> 0
      | Integer i \<Rightarrow> if i < 0 then nat (max (int len + i) 0) else min (nat i) len
      | PositiveInfinity \<Rightarrow> len)"

definition slice :: "'a list \<Rightarrow> number \<Rightarrow> number option \<Rightarrow> 'a list" where
  "slice arr start end =
     (let len = length arr;
          k = relativeIndex len (toIntegerOrInfinity start);
          final = (case end of None \<Rightarrow> len | Some e \<Rightarrow> relativeIndex len (toIntegerOrInfinity e))
      in take (final - k) (drop k arr))"

text \<open>
  \<^verbatim>\<open>rolls.toSorted((a, b) => a - b)\<close>: the comparator puts \<open>a\<close> after \<open>b\<close> when \<open>a - b\<close> is
  greater than 0, and a result \<open>NaN\<close> counts as 0. The sort is stable, so on rolls without
  \<open>NaN\<close> its result is determined; the model computes it by insertion. With \<open>NaN\<close> among the
  rolls the comparator is no ordering and ECMAScript leaves the order to the
  implementation; the model then returns the order of the insertions.
\<close>

fun insertSorted :: "number \<Rightarrow> number list \<Rightarrow> number list" where
  "insertSorted a [] = [a]"
| "insertSorted a (b # bs) =
     (if lessThan (Finite 0) (numberSubtract a b) then b # insertSorted a bs else a # b # bs)"

definition toSorted :: "number list \<Rightarrow> number list" where
  "toSorted arr = foldr insertSorted arr []"

text \<open>
  \<^verbatim>\<open>Array.from({ length: numDice }, () => random(numSides))\<close>: the length is
  \<open>ToLength(numDice)\<close>; that many calls in order, each on the state the one before left.
  \<^verbatim>\<open>Array.from\<close> throws a RangeError for a length of \<open>2^32\<close> or more, before any call.
\<close>

fun rollDice :: "'s Random \<Rightarrow> number \<Rightarrow> nat \<Rightarrow> 's \<Rightarrow> number list \<times> 's" where
  "rollDice random numSides 0 s = ([], s)"
| "rollDice random numSides (Suc n) s =
     (case random numSides s of
        (x, s1) \<Rightarrow> (case rollDice random numSides n s1 of (xs, s2) \<Rightarrow> (x # xs, s2)))"

definition arrayFrom :: "number \<Rightarrow> 's Random \<Rightarrow> number \<Rightarrow> 's \<Rightarrow> error + number list \<times> 's" where
  "arrayFrom numDice random numSides s =
     (if 2 ^ 32 \<le> toLength numDice then Inl RangeError
      else Inr (rollDice random numSides (toLength numDice) s))"

text \<open>
  \<^verbatim>\<open>evaluate\<close>. \<open>toString\<close> is the conversion of a number to a string that the
  template literals and \<^verbatim>\<open>join\<close> apply; it is a parameter. The state of the random
  source goes through the calls in the order the source makes them: left, then right.
\<close>

fun evaluate :: "(number \<Rightarrow> string) \<Rightarrow> ASTNode \<Rightarrow> 's Random \<Rightarrow> 's \<Rightarrow> error + Result \<times> 's" where
  "evaluate toString (NumberNode v) random s =
     Inr (\<lparr>result = v, rolls = None, explanation = toString v\<rparr>, s)"
| "evaluate toString (DiceNode numDice numSides) random s =
     bind (arrayFrom numDice random numSides s) (\<lambda>(rs, s1).
       Inr (\<lparr>result = foldl numberAdd (Finite 0) rs, rolls = Some rs,
             explanation = ''['' @ join '' + '' (map toString rs) @ '']''\<rparr>, s1))"
| "evaluate toString (BinaryOpNode l operator r) random s =
     bind (evaluate toString l random s) (\<lambda>(left, s1).
       bind (evaluate toString r random s1) (\<lambda>(right, s2).
         bind (case operator of
                 PLUS \<Rightarrow> Inr (numberAdd (result left) (result right), ''+'')
               | MINUS \<Rightarrow> Inr (numberSubtract (result left) (result right), ''-'')
               | STAR \<Rightarrow> Inr (numberMultiply (result left) (result right), ''*'')
               | SLASH \<Rightarrow> Inr (numberDivide (result left) (result right), ''/'')
               | _ \<Rightarrow> Inl UnexpectedNode) (\<lambda>(v, opExplanation).
           Inr (\<lparr>result = v, rolls = None,
                 explanation = explanation left @ '' '' @ opExplanation @ '' '' @ explanation right\<rparr>,
                s2))))"
| "evaluate toString (DiceModifierNode numDice numSides operator r) random s =
     bind (evaluate toString (DiceNode numDice numSides) random s) (\<lambda>(left, s1).
       bind (evaluate toString r random s1) (\<lambda>(right, s2).
         bind (case rolls left of None \<Rightarrow> Inl TypeError | Some rs \<Rightarrow> Inr (toSorted rs)) (\<lambda>sorted.
           case operator of
             KEEP_HIGHEST \<Rightarrow>
               Inr (\<lparr>result = sumArr (slice sorted (numberUnaryMinus (result right)) None),
                     rolls = None,
                     explanation = explanation left @ ''kh'' @ explanation right\<rparr>, s2)
           | KEEP_LOWEST \<Rightarrow>
               Inr (\<lparr>result = sumArr (slice sorted (Finite 0) (Some (result right))),
                     rolls = None,
                     explanation = explanation left @ ''kl'' @ explanation right\<rparr>, s2)
           | _ \<Rightarrow> Inl UnexpectedNode)))"
| "evaluate toString (GroupingNode expression) random s =
     bind (evaluate toString expression random s) (\<lambda>(r, s1).
       Inr (\<lparr>result = result r, rolls = rolls r,
             explanation = ''('' @ explanation r @ '')''\<rparr>, s1))"

section \<open>Facade\<close>

text \<open>
  \<^verbatim>\<open>roll(expression, { random, maxRolls })\<close>. \<open>maxRolls = None\<close> is the option left out.
  \<^verbatim>\<open>if (maxRolls)\<close> tests the truthiness of the number, and \<^verbatim>\<open>rolls > maxRolls\<close>
  compares two numbers.
\<close>

definition roll ::
  "(number \<Rightarrow> string) \<Rightarrow> string \<Rightarrow> 's Random \<Rightarrow> number option \<Rightarrow> 's \<Rightarrow> error + Result \<times> 's" where
  "roll toString expression random maxRolls s =
     bind (lex expression) (\<lambda>tokens.
       bind (parse tokens) (\<lambda>(ast, warnings).
         bind (case maxRolls of
                 None \<Rightarrow> Inr ()
               | Some m \<Rightarrow>
                   if toBoolean m then
                     (let n = countRolls ast
                      in if lessThan m n then Inl (TooManyDiceError n) else Inr ())
                   else Inr ()) (\<lambda>_.
           evaluate toString ast random s)))"

section \<open>Definitions for stating the claims\<close>






text \<open>A random source that returns the same number at every call (the spec's fixed source).\<close>

definition fixed :: "number \<Rightarrow> unit Random" where
  "fixed x m s = (x, s)"

text \<open>
  The decimal digits of a natural number, and what JavaScript's conversion of a number
  to a string gives for a whole number below \<open>10^21\<close>: its decimal digits, after a minus
  sign when it is negative. The examples pass it as \<open>toString\<close>; they convert whole
  numbers only.
\<close>

function decimal :: "nat \<Rightarrow> string" where
  "decimal n = (if n < 10 then [''0123456789'' ! n] else decimal (n div 10) @ [''0123456789'' ! (n mod 10)])"
  by pat_completeness auto
termination
  by (relation "measure (\<lambda>n. n)") auto

declare decimal.simps [simp del]

fun integerToString :: "number \<Rightarrow> string" where
  "integerToString NaN = ''NaN''"
| "integerToString (Infinity negative) = (if negative then ''-Infinity'' else ''Infinity'')"
| "integerToString MinusZero = ''0''"
| "integerToString (Finite x) = (if x < 0 then ''-'' @ decimal (nat \<lfloor>- x\<rfloor>) else decimal (nat \<lfloor>x\<rfloor>))"

section \<open>One iteration of the lexer\<close>

text \<open>
  \<open>lexStep expression off\<close> is what one iteration of the scanning loop does at \<open>off\<close>: the
  offset it leaves, the tokens it pushes and the errors it pushes. It is a view of
  \<open>lexLoop\<close> for the proofs; \<open>lexLoop_step\<close> ties it to the loop.
\<close>

definition lexStep :: "string \<Rightarrow> nat \<Rightarrow> nat \<times> token list \<times> error list" where
  "lexStep expression off =
     (let char = expression ! off in
      if isSpace char then (off + 1, [], [])
      else if isDigit char then
        (scanDigits expression off,
         [\<lparr>type = NUMBER, lexeme = substring expression off (scanDigits expression off),
           offset = off,
           literal = Some (parseInt (substring expression off (scanDigits expression off)))\<rparr>], [])
      else if char = CHR ''d'' then (off + 1, [mkToken DICE (substring expression off (off + 1)) off], [])
      else if char = CHR ''+'' then (off + 1, [mkToken PLUS ''+'' off], [])
      else if char = CHR ''-'' then (off + 1, [mkToken MINUS ''-'' off], [])
      else if char = CHR ''*'' then (off + 1, [mkToken STAR ''*'' off], [])
      else if char = CHR ''/'' then (off + 1, [mkToken SLASH ''/'' off], [])
      else if char = CHR ''('' then (off + 1, [mkToken PAREN_OPEN ''('' off], [])
      else if char = CHR '')'' then (off + 1, [mkToken PAREN_CLOSE '')'' off], [])
      else if char = CHR ''k'' then
        (if off + 1 < length expression \<and> expression ! (off + 1) = CHR ''h''
         then (off + 2, [mkToken KEEP_HIGHEST ''kh'' (off + 1)], [])
         else if off + 1 < length expression \<and> expression ! (off + 1) = CHR ''l''
         then (off + 2, [mkToken KEEP_LOWEST ''kh'' (off + 1)], [])
         else (off + 1, [], [DiceNotationError (''Unexpected '' @ [char]) expression (off + 1)]))
      else if char = CHR ''h'' then (off + 1, [mkToken KEEP_HIGHEST [char] off], [])
      else if char = CHR ''l'' then (off + 1, [mkToken KEEP_LOWEST [char] off], [])
      else (off + 1, [],
            [DiceNotationError (''Unexpected '' @ [CHR 0x27, char, CHR 0x27] @ ''!'') expression off]))"
section \<open>Arithmetic expressions, as the spec describes them\<close>













text \<open>The \<open>result\<close> field of what a run returns, beside the state it leaves; an error stays.\<close>

definition numeric :: "error + Result \<times> 's \<Rightarrow> error + number \<times> 's" where
  "numeric m = map_sum (\<lambda>e. e) (apfst result) m"




section \<open>Evaluating the model on concrete inputs\<close>

text \<open>
  The simplifier runs the definitions on a concrete input when it decides each condition
  before it looks at the branches: \<open>bind_weak_cong\<close> keeps it out of the continuation of
  a \<open>bind\<close> until the first argument is a value.
\<close>

lemma bind_weak_cong: "m = m' \<Longrightarrow> bind m f = bind m' f"
  by simp

lemma rollDice_numeral:
  "rollDice random numSides (numeral k) s =
     (case random numSides s of
        (x, s1) \<Rightarrow> (case rollDice random numSides (pred_numeral k) s1 of (xs, s2) \<Rightarrow> (x # xs, s2)))"
  by (simp add: numeral_eq_Suc)

lemma rollDice_1:
  "rollDice random numSides 1 s = (case random numSides s of (x, s1) \<Rightarrow> ([x], s1))"
  by simp

lemma lexLoop_end:
  "length expression \<le> off \<Longrightarrow> lexLoop expression off tokens errors = (tokens, errors, off)"
  by (subst lexLoop.simps) simp

lemmas number_eval = toNumber_def rounded_def zero_def roundMagnitude_def roundHalfEven_def
  exponent_def bits.simps numberSubtract_def Let_def

lemmas lex_eval = lex_def lexLoop.simps[unfolded Let_def] scanDigits.simps isDigit_def isSpace_def
  substring_def parseInt_def mathInt_def digitValue_def mkToken_def number_eval

lemmas parse_eval = parse_def term'.simps termLoop.simps factor.simps factorLoop.simps
  primary.simps dice.simps match_def expect_def peek_def previous_def numberLiteral_def

lemmas evaluate_eval = arrayFrom_def toLength_def sumArr_def slice_def relativeIndex_def
  toSorted_def rollDice_numeral rollDice_1 number_eval

section \<open>The lexer's keep tokens\<close>

text \<open>
  C5. When the scan stands on a \<open>k\<close> that is followed by \<open>h\<close>, it pushes a \<open>KEEP_HIGHEST\<close>
  token with lexeme \<open>kh\<close>; when the \<open>k\<close> is followed by \<open>l\<close>, it pushes a \<open>KEEP_LOWEST\<close>
  token whose lexeme is \<open>kh\<close> as well. The two tokens differ in their type only. In both
  cases the scan goes on after the two characters.
\<close>

theorem lex_keep_lexeme:
  "off + 1 < length expression \<Longrightarrow> expression ! off = CHR ''k'' \<Longrightarrow>
     (expression ! (off + 1) = CHR ''h'' \<longrightarrow>
        lexLoop expression off tokens errors =
        lexLoop expression (off + 2)
          (tokens @ [\<lparr>type = KEEP_HIGHEST, lexeme = ''kh'', offset = off + 1, literal = None\<rparr>])
          errors) \<and>
     (expression ! (off + 1) = CHR ''l'' \<longrightarrow>
        lexLoop expression off tokens errors =
        lexLoop expression (off + 2)
          (tokens @ [\<lparr>type = KEEP_LOWEST, lexeme = ''kh'', offset = off + 1, literal = None\<rparr>])
          errors)"
  by (subst lexLoop.simps, simp add: Let_def isSpace_def isDigit_def mkToken_def)+

theorem lex_keep_lexeme_witness:
  "lex ''kh'' = Inr [\<lparr>type = KEEP_HIGHEST, lexeme = ''kh'', offset = 1, literal = None\<rparr>,
                    \<lparr>type = EOF, lexeme = [], offset = 2, literal = None\<rparr>] \<and>
   lex ''kl'' = Inr [\<lparr>type = KEEP_LOWEST, lexeme = ''kh'', offset = 1, literal = None\<rparr>,
                    \<lparr>type = EOF, lexeme = [], offset = 2, literal = None\<rparr>]"
  using lex_keep_lexeme [of 0 "''kh''" "[]" "[]"] lex_keep_lexeme [of 0 "''kl''" "[]" "[]"]
  by (simp add: lex_def mkToken_def lexLoop_end)

section \<open>Offsets the lexer records\<close>

text \<open>
  C6. In \<open>2d6kh1\<close> the text \<open>kh\<close> starts at index 3, and the \<open>KEEP_HIGHEST\<close> token the
  lexer returns for it has offset 4, the index of the \<open>h\<close>: the \<open>k\<close> branch increments the
  offset before it builds the token, where every other branch records the index of the
  token's first character.
\<close>

theorem lex_keep_offset:
  "lex ''2d6kh1'' =
     Inr [\<lparr>type = NUMBER, lexeme = ''2'', offset = 0, literal = Some (Finite 2)\<rparr>,
          \<lparr>type = DICE, lexeme = ''d'', offset = 1, literal = None\<rparr>,
          \<lparr>type = NUMBER, lexeme = ''6'', offset = 2, literal = Some (Finite 6)\<rparr>,
          \<lparr>type = KEEP_HIGHEST, lexeme = ''kh'', offset = 4, literal = None\<rparr>,
          \<lparr>type = NUMBER, lexeme = ''1'', offset = 5, literal = Some (Finite 1)\<rparr>,
          \<lparr>type = EOF, lexeme = [], offset = 6, literal = None\<rparr>] \<and>
   substring ''2d6kh1'' 3 5 = ''kh'' \<and> substring ''2d6kh1'' 4 6 = ''h1''"
  by (simp add: lex_eval)

section \<open>The first lexical error\<close>

text \<open>
  C4. On the input \<open>k\<close> the lexer throws \<open>DiceNotationError\<close> with the message
  \<open>Unexpected k\<close>, the whole source string, and the offset 1, which is the length of the
  string: no character stands there. On \<open>1 @ 2\<close> the offset is 2, the index of the \<open>@\<close>.
  In \<open>k@\<close> both characters are errors; the one thrown is the first, for the \<open>k\<close>.
\<close>

theorem lex_error_offset:
  "lex ''k'' = Inl (DiceNotationError ''Unexpected k'' ''k'' 1) \<and> length ''k'' = 1 \<and>
   lex ''1 @ 2'' = Inl (DiceNotationError (''Unexpected '' @ [CHR 0x27, CHR ''@'', CHR 0x27] @ ''!'')
                          ''1 @ 2'' 2) \<and>
   lex ''k@'' = Inl (DiceNotationError ''Unexpected k'' ''k@'' 1)"
  by (simp add: lex_eval)

section \<open>Sorting and slices\<close>

lemma slice_minus_zero: "isZero x \<Longrightarrow> slice xs (numberUnaryMinus x) None = xs"
  by (cases x) (simp_all add: slice_def relativeIndex_def)

lemma slice_zero_zero: "isZero x \<Longrightarrow> slice xs (Finite 0) (Some x) = []"
  by (cases x) (simp_all add: slice_def relativeIndex_def)

lemma count_list_insertSorted:
  "count_list (insertSorted a bs) x = count_list (a # bs) x"
  by (induction bs) auto

lemma count_list_toSorted: "count_list (toSorted arr) x = count_list arr x"
  by (induction arr) (simp_all add: toSorted_def count_list_insertSorted)

lemma length_insertSorted: "length (insertSorted a bs) = Suc (length bs)"
  by (induction bs) auto

lemma length_toSorted: "length (toSorted arr) = length arr"
  by (induction arr) (simp_all add: toSorted_def length_insertSorted)

section \<open>A keep count of zero\<close>

text \<open>
  C10. Let the dice of a \<open>DICE_BINARY_OP\<close> node roll \<open>rs\<close>, and let its right operand
  evaluate to a zero (\<open>+0\<close> or \<open>-0\<close>). Then \<open>KEEP_LOWEST\<close> returns 0, the sum of the empty
  slice, and \<open>KEEP_HIGHEST\<close> returns the sum of the whole sorted array of the rolls, since
  \<open>slice(-0)\<close> is \<open>slice(0)\<close>; the sorted array holds every roll as often as \<open>rs\<close> does.
\<close>

theorem keep_zero_asymmetry:
  "arrayFrom numDice random numSides s = Inr (rs, s1) \<Longrightarrow>
   evaluate toString r random s1 = Inr (right, s2) \<Longrightarrow> isZero (result right) \<Longrightarrow>
     evaluate toString (DiceModifierNode numDice numSides KEEP_LOWEST r) random s =
       Inr (\<lparr>result = Finite 0, rolls = None,
             explanation = ''['' @ join '' + '' (map toString rs) @ '']'' @ ''kl'' @ explanation right\<rparr>,
            s2) \<and>
     evaluate toString (DiceModifierNode numDice numSides KEEP_HIGHEST r) random s =
       Inr (\<lparr>result = sumArr (toSorted rs), rolls = None,
             explanation = ''['' @ join '' + '' (map toString rs) @ '']'' @ ''kh'' @ explanation right\<rparr>,
            s2) \<and>
     (\<forall>x. count_list (toSorted rs) x = count_list rs x)"
  using slice_minus_zero [of "result right" "toSorted rs"]
    slice_zero_zero [of "result right" "toSorted rs"]
  by (simp add: count_list_toSorted) (simp add: sumArr_def)

theorem keep_zero_asymmetry_witness:
  "evaluate integerToString (DiceModifierNode (Finite 2) (Finite 20) KEEP_LOWEST (NumberNode (Finite 0)))
       sequence [Finite 15, Finite 8] =
     Inr (\<lparr>result = Finite 0, rolls = None, explanation = ''[15 + 8]kl0''\<rparr>, []) \<and>
   evaluate integerToString (DiceModifierNode (Finite 2) (Finite 20) KEEP_HIGHEST (NumberNode (Finite 0)))
       sequence [Finite 15, Finite 8] =
     Inr (\<lparr>result = Finite 23, rolls = None, explanation = ''[15 + 8]kh0''\<rparr>, []) \<and>
   toSorted [Finite 15, Finite 8] = [Finite 8, Finite 15]"
  using keep_zero_asymmetry [of "Finite 2" sequence "Finite 20" "[Finite 15, Finite 8]"
      "[Finite 15, Finite 8]" "[]" integerToString
      "NumberNode (Finite 0)" "\<lparr>result = Finite 0, rolls = None, explanation = ''0''\<rparr>" "[]"]
  by (simp add: evaluate_eval decimal.simps)

section \<open>Keep highest and keep lowest\<close>

text \<open>
  C2. With the sequence source yielding 1, 2, 5, \<open>roll("3d6kh0")\<close> returns 8, the sum of
  all three rolls, where the last 0 elements of the sorted rolls sum to 0, which is what
  \<open>roll("3d6kl0")\<close> returns for the first 0 elements. The two examples of the claim hold:
  \<open>3d6kh1\<close> gives 5 and \<open>3d6kl2\<close> gives 3.
\<close>

theorem keep_highest_zero:
  "roll integerToString ''3d6kh0'' sequence None [Finite 1, Finite 2, Finite 5] =
     Inr (\<lparr>result = Finite 8, rolls = None, explanation = ''[1 + 2 + 5]kh0''\<rparr>, []) \<and>
   roll integerToString ''3d6kl0'' sequence None [Finite 1, Finite 2, Finite 5] =
     Inr (\<lparr>result = Finite 0, rolls = None, explanation = ''[1 + 2 + 5]kl0''\<rparr>, []) \<and>
   roll integerToString ''3d6kh1'' sequence None [Finite 1, Finite 2, Finite 5] =
     Inr (\<lparr>result = Finite 5, rolls = None, explanation = ''[1 + 2 + 5]kh1''\<rparr>, []) \<and>
   roll integerToString ''3d6kl2'' sequence None [Finite 1, Finite 2, Finite 5] =
     Inr (\<lparr>result = Finite 3, rolls = None, explanation = ''[1 + 2 + 5]kl2''\<rparr>, [])"
  by (simp add: roll_def lex_eval parse_eval evaluate_eval decimal.simps
      cong: bind_weak_cong)

text \<open>
  For a keep count that is a whole number of at least 1, the two slices are the last and
  the first that many of the sorted rolls, and all of them when there are fewer.
\<close>

lemma slice_last:
  "1 \<le> k \<Longrightarrow> slice xs (numberUnaryMinus (Finite (real k))) None = drop (length xs - k) xs"
proof -
  assume "1 \<le> k"
  moreover have "nat (max (int (length xs) - int k) 0) = length xs - k" by arith
  ultimately show ?thesis
    by (simp add: slice_def relativeIndex_def)
qed

lemma slice_first:
  "slice xs (Finite 0) (Some (Finite (real k))) = take k xs"
  by (simp add: slice_def relativeIndex_def min_def Let_def)

lemma keep_positive:
  "arrayFrom numDice random numSides s = Inr (rs, s1) \<Longrightarrow>
   evaluate toString r random s1 = Inr (right, s2) \<Longrightarrow> result right = Finite (real k) \<Longrightarrow> 1 \<le> k \<Longrightarrow>
     numeric (evaluate toString (DiceModifierNode numDice numSides KEEP_HIGHEST r) random s) =
       Inr (sumArr (drop (length rs - k) (toSorted rs)), s2) \<and>
     numeric (evaluate toString (DiceModifierNode numDice numSides KEEP_LOWEST r) random s) =
       Inr (sumArr (take k (toSorted rs)), s2)"
  using slice_last [of k "toSorted rs"]
  by (simp add: numeric_def slice_first length_toSorted)

section \<open>The lexer, one iteration at a time\<close>

lemma lexLoop_step:
  "off < length expression \<Longrightarrow>
     lexLoop expression off tokens errors =
       (case lexStep expression off of
          (off', pushed, thrown) \<Rightarrow> lexLoop expression off' (tokens @ pushed) (errors @ thrown))"
  by (subst lexLoop.simps) (simp add: lexStep_def Let_def)

lemma lexStep_advances:
  "off < length expression \<Longrightarrow> lexStep expression off = (off', pushed, thrown) \<Longrightarrow>
     off < off' \<and> off' \<le> length expression"
  using scanDigits_gt [of off expression] scanDigits_le [of off expression]
  by (auto simp: lexStep_def Let_def split: if_splits)

lemma lexLoop_append:
  "lexLoop expression off tokens errors =
     (case lexLoop expression off [] [] of
        (pushed, thrown, off') \<Rightarrow> (tokens @ pushed, errors @ thrown, off'))"
proof (induction "length expression - off" arbitrary: off tokens errors rule: less_induct)
  case less
  show ?case
  proof (cases "off < length expression")
    case False
    then show ?thesis by (simp add: lexLoop_end)
  next
    case True
    obtain off' pushed thrown where st: "lexStep expression off = (off', pushed, thrown)"
      by (cases "lexStep expression off") auto
    from lexStep_advances [OF True st] True
    have m: "length expression - off' < length expression - off" by arith
    from less [OF m, of "tokens @ pushed" "errors @ thrown"] less [OF m, of pushed thrown]
    show ?thesis
      by (simp add: lexLoop_step [OF True] st split: prod.splits)
  qed
qed

lemma lexLoop_final_offset:
  "off \<le> length expression \<Longrightarrow> lexLoop expression off tokens errors = (tokens', errors', off') \<Longrightarrow>
     off' = length expression"
proof (induction "length expression - off" arbitrary: off tokens errors rule: less_induct)
  case less
  show ?case
  proof (cases "off < length expression")
    case False
    with less.prems show ?thesis by (simp add: lexLoop_end)
  next
    case True
    obtain o1 pushed thrown where st: "lexStep expression off = (o1, pushed, thrown)"
      by (cases "lexStep expression off") auto
    from lexStep_advances [OF True st] True
    have m: "length expression - o1 < length expression - off" and le: "o1 \<le> length expression"
      by arith+
    from less.prems(2) have "lexLoop expression o1 (tokens @ pushed) (errors @ thrown) = (tokens', errors', off')"
      by (simp add: lexLoop_step [OF True] st)
    from less.hyps [OF m le this] show ?thesis .
  qed
qed

lemma lexStep_errors:
  "lexStep expression off = (off', pushed, thrown) \<Longrightarrow>
     \<forall>e \<in> set thrown. \<exists>msg n. e = DiceNotationError msg expression n"
  by (auto simp: lexStep_def Let_def split: if_splits)

lemma lexLoop_errors:
  "lexLoop expression off [] [] = (pushed, thrown, off') \<Longrightarrow>
     \<forall>e \<in> set thrown. \<exists>msg n. e = DiceNotationError msg expression n"
proof (induction "length expression - off" arbitrary: off pushed thrown off' rule: less_induct)
  case less
  show ?case
  proof (cases "off < length expression")
    case False
    with less.prems show ?thesis by (simp add: lexLoop_end)
  next
    case True
    obtain o1 pushed1 thrown1 where st: "lexStep expression off = (o1, pushed1, thrown1)"
      by (cases "lexStep expression off") auto
    obtain pushed2 thrown2 o2 where rest: "lexLoop expression o1 [] [] = (pushed2, thrown2, o2)"
      by (cases "lexLoop expression o1 [] []") auto
    from lexStep_advances [OF True st] True
    have m: "length expression - o1 < length expression - off" by arith
    from less.prems have "thrown = thrown1 @ thrown2"
      by (simp add: lexLoop_step [OF True] st lexLoop_append [of expression o1 pushed1 thrown1] rest)
    with less.hyps [OF m rest] lexStep_errors [OF st] show ?thesis by auto
  qed
qed

section \<open>Which errors each stage throws\<close>

lemma bind_eq_Inl: "bind m f = Inl e \<longleftrightarrow> m = Inl e \<or> (\<exists>x. m = Inr x \<and> f x = Inl e)"
  by (cases m) auto

lemma lex_not_TooManyDice: "lex expression \<noteq> Inl (TooManyDiceError n)"
proof
  assume a: "lex expression = Inl (TooManyDiceError n)"
  obtain tokens errors off where l: "lexLoop expression 0 [] [] = (tokens, errors, off)"
    by (cases "lexLoop expression 0 [] []") auto
  from lexLoop_errors [OF l] have "\<forall>e \<in> set errors. \<exists>msg k. e = DiceNotationError msg expression k" .
  moreover from a l have "errors \<noteq> []" "errors ! 0 = TooManyDiceError n"
    by (auto simp: lex_def split: if_splits)
  ultimately show False
    by (cases errors) auto
qed

lemma match_not_TooManyDice [simp]: "match types tokens current \<noteq> Inl (TooManyDiceError n)"
  by (auto simp: match_def peek_def)

lemma expect_not_TooManyDice [simp]: "expect t tokens current \<noteq> Inl (TooManyDiceError n)"
  by (auto simp: expect_def peek_def)

lemma peek_not_TooManyDice [simp]: "peek tokens current \<noteq> Inl (TooManyDiceError n)"
  by (auto simp: peek_def)

lemma numberLiteral_not_TooManyDice [simp]: "numberLiteral token \<noteq> Inl (TooManyDiceError n)"
  by (auto simp: numberLiteral_def split: option.splits)

lemma parser_not_TooManyDice:
  "term' tokens c1 \<noteq> Inl (TooManyDiceError n)"
  "termLoop tokens x2 c2 \<noteq> Inl (TooManyDiceError n)"
  "factor tokens c3 \<noteq> Inl (TooManyDiceError n)"
  "factorLoop tokens x4 c4 \<noteq> Inl (TooManyDiceError n)"
  "primary tokens c5 \<noteq> Inl (TooManyDiceError n)"
  "dice tokens c6 \<noteq> Inl (TooManyDiceError n)"
proof (induction tokens c1 and tokens x2 c2 and tokens c3 and tokens x4 c4 and tokens c5 and tokens c6
    rule: term'_termLoop_factor_factorLoop_primary_dice.induct)
  case (1 tokens current)
  then show ?case
    by (subst term'.simps) (auto simp: bind_eq_Inl)
next
  case (2 tokens expr current)
  then show ?case
    by (subst termLoop.simps) (auto simp: bind_eq_Inl)
next
  case (3 tokens current)
  then show ?case
    by (subst factor.simps) (auto simp: bind_eq_Inl)
next
  case (4 tokens expr current)
  then show ?case
    by (subst factorLoop.simps) (auto simp: bind_eq_Inl)
next
  case (5 tokens current)
  then show ?case
    by (subst primary.simps) (auto simp: bind_eq_Inl)
next
  case (6 tokens current)
  then show ?case
    by (subst dice.simps) (auto simp: bind_eq_Inl split: if_splits)
qed

lemma parse_not_TooManyDice: "parse tokens \<noteq> Inl (TooManyDiceError n)"
  by (auto simp: parse_def bind_eq_Inl parser_not_TooManyDice)

lemma evaluate_not_TooManyDice: "evaluate toString ast random s \<noteq> Inl (TooManyDiceError n)"
proof (induction ast arbitrary: s)
  case (NumberNode v)
  show ?case by simp
next
  case (DiceNode numDice numSides)
  show ?case by (auto simp: bind_eq_Inl arrayFrom_def)
next
  case (BinaryOpNode l operator r)
  then show ?case by (cases operator) (auto simp: bind_eq_Inl)
next
  case (DiceModifierNode numDice numSides operator r)
  then show ?case
    by (cases operator) (auto simp: bind_eq_Inl arrayFrom_def split: option.splits)
next
  case (GroupingNode expression)
  then show ?case by (auto simp: bind_eq_Inl)
qed

section \<open>The limit on the number of rolls\<close>

text \<open>
  C9. \<open>maxRolls = 0\<close> is falsy: \<open>roll\<close> with it does what \<open>roll\<close> does with \<open>maxRolls\<close> left
  out, and neither ever fails with \<open>TooManyDiceError\<close>. For a truthy \<open>maxRolls\<close> (so for
  every positive one), when the expression lexes and parses to \<open>ast\<close>, \<open>roll\<close> fails with
  \<open>TooManyDiceError\<close> exactly when \<open>countRolls ast > maxRolls\<close>, the error carries
  \<open>countRolls ast\<close>, and otherwise \<open>roll\<close> is the evaluation of \<open>ast\<close>.
\<close>

theorem maxRolls_check:
  "roll toString expression random (Some (Finite 0)) s = roll toString expression random None s \<and>
   roll toString expression random None s \<noteq> Inl (TooManyDiceError k) \<and>
   (lex expression = Inr tokens \<and> parse tokens = Inr (ast, warnings) \<and> toBoolean m \<longrightarrow>
      roll toString expression random (Some m) s =
        (if lessThan m (countRolls ast) then Inl (TooManyDiceError (countRolls ast))
         else evaluate toString ast random s) \<and>
      ((\<exists>j. roll toString expression random (Some m) s = Inl (TooManyDiceError j)) \<longleftrightarrow>
         lessThan m (countRolls ast)))"
proof (intro conjI impI)
  show "roll toString expression random (Some (Finite 0)) s = roll toString expression random None s"
    by (simp add: roll_def)
  show "roll toString expression random None s \<noteq> Inl (TooManyDiceError k)"
    by (auto simp: roll_def bind_eq_Inl lex_not_TooManyDice parse_not_TooManyDice
        evaluate_not_TooManyDice)
next
  assume a: "lex expression = Inr tokens \<and> parse tokens = Inr (ast, warnings) \<and> toBoolean m"
  then show r: "roll toString expression random (Some m) s =
        (if lessThan m (countRolls ast) then Inl (TooManyDiceError (countRolls ast))
         else evaluate toString ast random s)"
    by (simp add: roll_def Let_def)
  show "(\<exists>j. roll toString expression random (Some m) s = Inl (TooManyDiceError j)) \<longleftrightarrow>
         lessThan m (countRolls ast)"
    by (simp add: r evaluate_not_TooManyDice)
qed

theorem maxRolls_check_witness:
  "roll integerToString ''1d6 + 2'' sequence (Some (Finite 0)) [Finite 4] =
     roll integerToString ''1d6 + 2'' sequence None [Finite 4] \<and>
   roll integerToString ''1d6 + 2'' sequence None [Finite 4] =
     Inr (\<lparr>result = Finite 6, rolls = None, explanation = ''[4] + 2''\<rparr>, []) \<and>
   roll integerToString ''1d6 + 2'' sequence (Some (Finite 1)) [Finite 4] =
     Inl (TooManyDiceError (Finite 2)) \<and>
   roll integerToString ''1d6 + 2'' sequence (Some (Finite 2)) [Finite 4] =
     Inr (\<lparr>result = Finite 6, rolls = None, explanation = ''[4] + 2''\<rparr>, [])"
proof -
  let ?tokens = "[\<lparr>type = NUMBER, lexeme = ''1'', offset = 0, literal = Some (Finite 1)\<rparr>,
          \<lparr>type = DICE, lexeme = ''d'', offset = 1, literal = None\<rparr>,
          \<lparr>type = NUMBER, lexeme = ''6'', offset = 2, literal = Some (Finite 6)\<rparr>,
          \<lparr>type = PLUS, lexeme = ''+'', offset = 4, literal = None\<rparr>,
          \<lparr>type = NUMBER, lexeme = ''2'', offset = 6, literal = Some (Finite 2)\<rparr>,
          \<lparr>type = EOF, lexeme = [], offset = 7, literal = None\<rparr>]"
  let ?ast = "BinaryOpNode (DiceNode (Finite 1) (Finite 6)) PLUS (NumberNode (Finite 2))"
  have l: "lex ''1d6 + 2'' = Inr ?tokens"
    by (simp add: lex_eval)
  have p: "parse ?tokens = Inr (?ast, [])"
    by (simp add: parse_eval cong: bind_weak_cong)
  have e: "evaluate integerToString ?ast sequence [Finite 4] =
      Inr (\<lparr>result = Finite 6, rolls = None, explanation = ''[4] + 2''\<rparr>, [])"
    by (simp add: evaluate_eval decimal.simps cong: bind_weak_cong)
  have c: "countRolls ?ast = Finite 2"
    by (simp add: number_eval)
  from maxRolls_check [of integerToString "''1d6 + 2''" sequence "[Finite 4]" "Finite 0" ?tokens ?ast
      "[]" "Finite 1"]
    maxRolls_check [of integerToString "''1d6 + 2''" sequence "[Finite 4]" "Finite 0" ?tokens ?ast
      "[]" "Finite 2"]
    l p e c
  show ?thesis
    by (simp add: roll_def)
qed

section \<open>Lexing a run of digits\<close>

lemma isDigit_not_isSpace: "isDigit c \<Longrightarrow> \<not> isSpace c"
  by (auto simp: isDigit_def isSpace_def)

lemma scanDigits_run:
  "off \<le> n \<Longrightarrow> n \<le> length expression \<Longrightarrow>
     \<forall>i. off \<le> i \<and> i < n \<longrightarrow> isDigit (expression ! i) \<Longrightarrow>
     n < length expression \<longrightarrow> \<not> isDigit (expression ! n) \<Longrightarrow>
     scanDigits expression off = n"
proof (induction "n - off" arbitrary: off)
  case 0
  then show ?case by (subst scanDigits.simps) auto
next
  case (Suc k)
  then have "off < n" "isDigit (expression ! off)" "off < length expression" by auto
  moreover from Suc have "scanDigits expression (Suc off) = n" by auto
  ultimately show ?case by (subst scanDigits.simps) simp
qed

lemma lexStep_digits:
  "off < n \<Longrightarrow> n \<le> length expression \<Longrightarrow>
     \<forall>i. off \<le> i \<and> i < n \<longrightarrow> isDigit (expression ! i) \<Longrightarrow>
     n < length expression \<longrightarrow> \<not> isDigit (expression ! n) \<Longrightarrow>
     lexStep expression off =
       (n, [\<lparr>type = NUMBER, lexeme = substring expression off n, offset = off,
              literal = Some (parseInt (substring expression off n))\<rparr>], [])"
  using scanDigits_run [of off n expression]
  by (simp add: lexStep_def isDigit_not_isSpace)

lemma lex_dN:
  assumes "N \<noteq> []" and "\<forall>c \<in> set N. isDigit c"
  shows "lex (''d'' @ N) =
     Inr [\<lparr>type = DICE, lexeme = ''d'', offset = 0, literal = None\<rparr>,
          \<lparr>type = NUMBER, lexeme = N, offset = 1, literal = Some (parseInt N)\<rparr>,
          \<lparr>type = EOF, lexeme = [], offset = 1 + length N, literal = None\<rparr>]"
proof -
  let ?e = "CHR ''d'' # N"
  have s0: "lexStep ?e 0 = (Suc 0, [\<lparr>type = DICE, lexeme = ''d'', offset = 0, literal = None\<rparr>], [])"
    by (simp add: lexStep_def isSpace_def isDigit_def substring_def mkToken_def)
  have "\<forall>i. 1 \<le> i \<and> i < length ?e \<longrightarrow> isDigit (?e ! i)"
    using assms(2) by (auto simp: nth_Cons split: nat.splits)
  from lexStep_digits [of 1 "length ?e" ?e] this assms(1)
  have s1: "lexStep ?e (Suc 0) =
      (Suc (length N), [\<lparr>type = NUMBER, lexeme = N, offset = Suc 0, literal = Some (parseInt N)\<rparr>], [])"
    by (simp add: substring_def)
  from assms(1) show ?thesis
    by (simp add: lex_def lexLoop_step s0 s1 lexLoop_end mkToken_def)
qed

lemma lex_1dN:
  assumes "N \<noteq> []" and "\<forall>c \<in> set N. isDigit c"
  shows "lex (''1d'' @ N) =
     Inr [\<lparr>type = NUMBER, lexeme = ''1'', offset = 0, literal = Some (Finite 1)\<rparr>,
          \<lparr>type = DICE, lexeme = ''d'', offset = 1, literal = None\<rparr>,
          \<lparr>type = NUMBER, lexeme = N, offset = 2, literal = Some (parseInt N)\<rparr>,
          \<lparr>type = EOF, lexeme = [], offset = 2 + length N, literal = None\<rparr>]"
proof -
  let ?e = "CHR ''1'' # CHR ''d'' # N"
  from lexStep_digits [of 0 1 ?e]
  have s0: "lexStep ?e 0 =
      (Suc 0, [\<lparr>type = NUMBER, lexeme = ''1'', offset = 0, literal = Some (Finite 1)\<rparr>], [])"
    by (simp add: isDigit_def substring_def parseInt_def mathInt_def digitValue_def number_eval)
  have s1: "lexStep ?e (Suc 0) =
      (Suc (Suc 0), [\<lparr>type = DICE, lexeme = ''d'', offset = Suc 0, literal = None\<rparr>], [])"
    by (simp add: lexStep_def isSpace_def isDigit_def substring_def mkToken_def)
  have "\<forall>i. 2 \<le> i \<and> i < length ?e \<longrightarrow> isDigit (?e ! i)"
    using assms(2) by (auto simp: nth_Cons split: nat.splits)
  from lexStep_digits [of 2 "length ?e" ?e] this assms(1)
  have s2: "lexStep ?e (Suc (Suc 0)) =
      (Suc (Suc (length N)),
       [\<lparr>type = NUMBER, lexeme = N, offset = Suc (Suc 0), literal = Some (parseInt N)\<rparr>], [])"
    by (simp add: substring_def numeral_2_eq_2)
  from assms(1) show ?thesis
    by (simp add: lex_def lexLoop_step s0 s1 s2 lexLoop_end mkToken_def numeral_2_eq_2)
qed

lemma parse_dN:
  "parse [\<lparr>type = DICE, lexeme = l0, offset = o0, literal = None\<rparr>,
          \<lparr>type = NUMBER, lexeme = l1, offset = o1, literal = Some n\<rparr>,
          \<lparr>type = EOF, lexeme = l2, offset = o2, literal = None\<rparr>] = Inr (DiceNode (Finite 1) n, [])"
  by (simp add: parse_eval cong: bind_weak_cong)

lemma parse_kdN:
  "parse [\<lparr>type = NUMBER, lexeme = l0, offset = o0, literal = Some k\<rparr>,
          \<lparr>type = DICE, lexeme = l1, offset = o1, literal = None\<rparr>,
          \<lparr>type = NUMBER, lexeme = l2, offset = o2, literal = Some n\<rparr>,
          \<lparr>type = EOF, lexeme = l3, offset = o3, literal = None\<rparr>] = Inr (DiceNode k n, [])"
  by (simp add: parse_eval cong: bind_weak_cong)

section \<open>The dice quantity defaults to 1\<close>

text \<open>
  C8. For every run of digits \<open>N\<close>, every random source, every state of it and every
  \<open>maxRolls\<close>, \<open>roll("dN")\<close> and \<open>roll("1dN")\<close> return the same: both parse to the \<open>DICE\<close>
  node with \<open>numDice = 1\<close> and \<open>numSides = N\<close>, and with no limit both are the evaluation
  of that node.
\<close>

theorem dice_quantity_default:
  "N \<noteq> [] \<Longrightarrow> \<forall>c \<in> set N. isDigit c \<Longrightarrow>
     roll toString (''d'' @ N) random maxRolls s = roll toString (''1d'' @ N) random maxRolls s \<and>
     roll toString (''d'' @ N) random None s = evaluate toString (DiceNode (Finite 1) (parseInt N)) random s"
  using lex_dN [of N] lex_1dN [of N]
  by (simp add: roll_def parse_dN parse_kdN)

theorem dice_quantity_default_witness:
  "roll integerToString ''d8'' (fixed (Finite 5)) None () =
     Inr (\<lparr>result = Finite 5, rolls = Some [Finite 5], explanation = ''[5]''\<rparr>, ()) \<and>
   roll integerToString ''1d8'' (fixed (Finite 5)) None () =
     Inr (\<lparr>result = Finite 5, rolls = Some [Finite 5], explanation = ''[5]''\<rparr>, ())"
  using dice_quantity_default [of "''8''" integerToString "fixed (Finite 5)" None "()"]
  by (auto simp: isDigit_def parseInt_def mathInt_def digitValue_def evaluate_eval fixed_def
      decimal.simps)

section \<open>Lexing an arithmetic expression\<close>





















section \<open>The parser, one production at a time\<close>









section \<open>The parser on arithmetic expressions\<close>



section \<open>The value of an arithmetic expression\<close>

















section \<open>Arithmetic expressions: precedence, associativity and value\<close>




section \<open>What the parser looks at\<close>











section \<open>Tokens after the top-level term\<close>




section \<open>Rounding whole numbers\<close>










section \<open>The literals of the tokens and of the tree\<close>







section \<open>Counting the rolls\<close>











end
